theory Spec2Isabelle
  imports Complex_Main "HOL-Library.Log_Nat"
begin

section \<open>Ops Status: data model of \<open>src/app/page.tsx\<close>\<close>

text \<open>
  The number fields of the records are only stored and copied by the code modelled here,
  and are carried as reals; the one function that computes with numbers, \<open>pct\<close>, is
  modelled on IEEE-754 doubles below. Timestamps (ISO strings produced from \<open>Date\<close>) are
  modelled by their epoch milliseconds. Record fields carry a prefix because \<open>id\<close> and
  \<open>name\<close> would clash between the two record kinds and with HOL's \<open>id\<close>.
\<close>

datatype WarehouseStatus = OK | Full | Critical | Closed

datatype VesselStatus = AtSea | Loading | Discharging | Anchored | Delayed

text \<open>\<open>Omit<WarehouseT, "id">\<close> is the draft; \<open>WarehouseT\<close> extends it with the id.\<close>

record WarehouseDraft =
  w_name :: string
  w_location :: string
  w_capacityTons :: real
  w_usedTons :: real
  w_status :: WarehouseStatus
  w_lastUpdate :: int

record WarehouseT = WarehouseDraft +
  w_id :: string

record VesselDraft =
  v_name :: string
  v_cargo :: string
  v_tonnage :: real
  v_status :: VesselStatus
  v_etaPort :: "string option"
  v_eta :: "int option"
  v_lastPosition :: "string option"

record VesselT = VesselDraft +
  v_id :: string

datatype Mode = demo | cloud

subsection \<open>Utilities\<close>

text \<open>
  A JavaScript number: NaN, the two infinities, or a finite double given by its value.
  The sign of zero is not modelled (\<open>-0\<close> and \<open>+0\<close> are both \<open>Finite 0\<close>).
\<close>

datatype number = NaN | PosInf | NegInf | Finite rat

text \<open>Powers of two with an integer exponent.\<close>

definition pow2 :: "int \<Rightarrow> rat" where
  "pow2 k = (if 0 \<le> k then 2 ^ nat k else 1 / 2 ^ nat (- k))"

text \<open>The binary exponent \<open>\<lfloor>log\<^sub>2 x\<rfloor>\<close> of a positive rational.\<close>

definition expo :: "rat \<Rightarrow> int" where
  "expo x = (if 1 \<le> x then bitlen \<lfloor>x\<rfloor> - 1 else - bitlen (\<lceil>1 / x\<rceil> - 1))"

text \<open>
  The spacing of the doubles around \<open>x\<close>: 52 fraction bits below the exponent, which
  does not go below -1022 (subnormal numbers).
\<close>

definition ulp :: "rat \<Rightarrow> rat" where
  "ulp x = pow2 (max (expo \<bar>x\<bar>) (- 1022) - 52)"

text \<open>Rounding to the nearest integer, ties to the even one.\<close>

definition rne :: "rat \<Rightarrow> int" where
  "rne q =
    (let f = \<lfloor>q\<rfloor>
     in if q - of_int f < 1 / 2 then f
        else if 1 / 2 < q - of_int f then f + 1
        else if even f then f else f + 1)"

text \<open>
  The double nearest to a rational (round to nearest, ties to even); a result that needs
  a binary exponent above 1023 is an infinity.
\<close>

definition fl :: "rat \<Rightarrow> number" where
  "fl x =
    (if x = 0 then Finite 0
     else let r = ulp x * of_int (rne (x / ulp x))
          in if 1024 \<le> expo \<bar>r\<bar> then (if 0 < x then PosInf else NegInf) else Finite r)"

text \<open>\<open>Math.max\<close>, \<open>Math.min\<close>, \<open>/\<close> and \<open>*\<close> on numbers.\<close>

fun Math_max :: "number \<Rightarrow> number \<Rightarrow> number" where
  "Math_max NaN y = NaN"
| "Math_max x NaN = NaN"
| "Math_max PosInf y = PosInf"
| "Math_max x PosInf = PosInf"
| "Math_max NegInf y = y"
| "Math_max x NegInf = x"
| "Math_max (Finite a) (Finite b) = Finite (max a b)"

fun Math_min :: "number \<Rightarrow> number \<Rightarrow> number" where
  "Math_min NaN y = NaN"
| "Math_min x NaN = NaN"
| "Math_min NegInf y = NegInf"
| "Math_min x NegInf = NegInf"
| "Math_min PosInf y = y"
| "Math_min x PosInf = x"
| "Math_min (Finite a) (Finite b) = Finite (min a b)"

fun js_div :: "number \<Rightarrow> number \<Rightarrow> number" where
  "js_div NaN y = NaN"
| "js_div x NaN = NaN"
| "js_div (Finite a) (Finite b) =
     (if b = 0 then (if a = 0 then NaN else if 0 < a then PosInf else NegInf)
      else fl (a / b))"
| "js_div (Finite a) y = Finite 0"
| "js_div PosInf (Finite b) = (if 0 \<le> b then PosInf else NegInf)"
| "js_div NegInf (Finite b) = (if 0 \<le> b then NegInf else PosInf)"
| "js_div x y = NaN"

fun js_mul :: "number \<Rightarrow> number \<Rightarrow> number" where
  "js_mul NaN y = NaN"
| "js_mul x NaN = NaN"
| "js_mul (Finite a) (Finite b) = fl (a * b)"
| "js_mul (Finite a) PosInf = (if a = 0 then NaN else if 0 < a then PosInf else NegInf)"
| "js_mul (Finite a) NegInf = (if a = 0 then NaN else if 0 < a then NegInf else PosInf)"
| "js_mul PosInf (Finite b) = (if b = 0 then NaN else if 0 < b then PosInf else NegInf)"
| "js_mul NegInf (Finite b) = (if b = 0 then NaN else if 0 < b then NegInf else PosInf)"
| "js_mul PosInf PosInf = PosInf"
| "js_mul NegInf NegInf = PosInf"
| "js_mul x y = NegInf"

text \<open>
  \<open>Math.round\<close>: the nearest integer, ties towards plus infinity, computed exactly.
\<close>

fun Math_round :: "number \<Rightarrow> number" where
  "Math_round (Finite x) = Finite (of_int \<lfloor>x + 1 / 2\<rfloor>)"
| "Math_round x = x"

text \<open>\<open>const pct = (used, cap) => Math.min(100, Math.round((used / Math.max(cap, 1)) * 100))\<close>\<close>

definition pct :: "number \<Rightarrow> number \<Rightarrow> number" where
  "pct used cap =
    Math_min (Finite 100) (Math_round (js_mul (js_div used (Math_max cap (Finite 1))) (Finite 100)))"

text \<open>\<open>x >= 0\<close>, and membership in the interval from 0 to 100.\<close>

fun ge0 :: "number \<Rightarrow> bool" where
  "ge0 (Finite u) = (0 \<le> u)"
| "ge0 PosInf = True"
| "ge0 x = False"

fun in_0_100 :: "number \<Rightarrow> bool" where
  "in_0_100 (Finite r) = (0 \<le> r \<and> r \<le> 100)"
| "in_0_100 x = False"

subsection \<open>Demo sample data\<close>

text \<open>
  The en dash of the sample names, as its UTF-8 bytes. \<open>t0\<close> is the clock at module load
  (\<open>new Date()\<close>, \<open>Date.now()\<close>).
\<close>

definition en_dash :: string where
  "en_dash = [CHR 0xE2, CHR 0x80, CHR 0x93]"

definition SAMPLE_warehouses :: "int \<Rightarrow> WarehouseT list" where
  "SAMPLE_warehouses t0 =
    [\<lparr>w_name = ''Caspian Port '' @ en_dash @ '' Main Silo'', w_location = ''Anzali'',
       w_capacityTons = 30000, w_usedTons = 18250, w_status = OK, w_lastUpdate = t0,
       w_id = ''w1''\<rparr>,
     \<lparr>w_name = ''Caspian Port '' @ en_dash @ '' Shed B'', w_location = ''Amirabad'',
       w_capacityTons = 8000, w_usedTons = 7800, w_status = Full, w_lastUpdate = t0,
       w_id = ''w2''\<rparr>,
     \<lparr>w_name = ''ARIB Yard'', w_location = ''Astrakhan'',
       w_capacityTons = 12000, w_usedTons = 10800, w_status = Critical, w_lastUpdate = t0,
       w_id = ''w3''\<rparr>]"

definition SAMPLE_vessels :: "int \<Rightarrow> VesselT list" where
  "SAMPLE_vessels t0 =
    [\<lparr>v_name = ''OMSKIY-128'', v_cargo = ''Corn'', v_tonnage = 3000, v_status = Anchored,
       v_etaPort = Some ''Astrakhan'', v_eta = Some (t0 + 36 * 3600 * 1000),
       v_lastPosition = Some ''Volga delta anchorage'', v_id = ''v1''\<rparr>,
     \<lparr>v_name = ''OMSKIY-131'', v_cargo = ''Clinker'', v_tonnage = 3500, v_status = Discharging,
       v_etaPort = Some ''Caspian Port'', v_eta = Some (t0 + 12 * 3600 * 1000),
       v_lastPosition = Some ''Berth CP-02'', v_id = ''v2''\<rparr>,
     \<lparr>v_name = ''OMSKIY-86'', v_cargo = ''Cement in Big Bags'', v_tonnage = 2500,
       v_status = AtSea, v_etaPort = Some ''Astrakhan'', v_eta = Some (t0 + 72 * 3600 * 1000),
       v_lastPosition = Some ''Caspian mid-lane'', v_id = ''v3''\<rparr>]"

subsection \<open>Browser storage and configuration\<close>

text \<open>
  The \<open>LS_KEY\<close> slot of localStorage: absent, not parseable (or parsing to something
  without fields), or an object whose \<open>warehouses\<close> and \<open>vessels\<close> fields may be missing.
\<close>

datatype LsData = NoItem | BadJson | Item "WarehouseT list option" "VesselT list option"

record FirebaseConfig =
  c_apiKey :: string
  c_authDomain :: string
  c_projectId :: string
  c_orgKey :: string

text \<open>The \<open>CFG_KEY\<close> slot: absent, not parseable, or a stored configuration.\<close>

datatype CfgSlot = CfgNone | CfgBad | CfgItem FirebaseConfig

text \<open>\<open>x || "default"\<close>: the empty (or missing) string is falsy.\<close>

definition or_default :: "string \<Rightarrow> string" where
  "or_default k = (if k = [] then ''default'' else k)"

subsection \<open>Cloud paths\<close>

record ColRefs =
  W :: string
  V :: string
  H :: string

text \<open>
  \<open>colRefs(db, orgKey)\<close>: the three collection paths handed to \<open>collection(db, ...)\<close>.
\<close>

definition colRefs :: "string \<Rightarrow> ColRefs" where
  "colRefs orgKey =
    \<lparr>W = ''orgs/'' @ orgKey @ ''/warehouses'',
     V = ''orgs/'' @ orgKey @ ''/vessels'',
     H = ''orgs/'' @ orgKey @ ''/healthchecks''\<rparr>"

text \<open>The document paths of \<open>updateDoc\<close>/\<open>deleteDoc\<close>.\<close>

definition warehouseDoc :: "string \<Rightarrow> string \<Rightarrow> string" where
  "warehouseDoc orgKey i = ''orgs/'' @ orgKey @ ''/warehouses/'' @ i"

definition vesselDoc :: "string \<Rightarrow> string \<Rightarrow> string" where
  "vesselDoc orgKey i = ''orgs/'' @ orgKey @ ''/vessels/'' @ i"

subsection \<open>Application state\<close>

text \<open>A call issued to Firestore: its path and payload.\<close>

datatype RemoteCall =
    AddWarehouseDoc string WarehouseDraft
  | AddVesselDoc string VesselDraft
  | UpdateWarehouseDoc string WarehouseT
  | UpdateVesselDoc string VesselT
  | DeleteDoc string

text \<open>
  How the promise of an async handler settles: resolved with a value (\<open>None\<close> is
  \<open>undefined\<close>) or rejected.
\<close>

datatype Settled = Resolved "string option" | Rejected

text \<open>
  The React state of \<open>App\<close> (\<open>mode\<close> to \<open>auth\<close>; \<open>db\<close> and \<open>auth\<close> record whether the
  handle is non-null), the listeners it has registered, the calls it has issued to
  Firestore, and the browser environment it reads (\<open>localStorage\<close>, \<open>globalThis.__FIREBASE\<close>).
\<close>

record AppState =
  mode :: Mode
  warehouses :: "WarehouseT list"
  vessels :: "VesselT list"
  user :: "string option"
  orgKey :: string
  db :: bool
  auth :: bool
  authListener :: bool
  subscription :: "string option"
  issued :: "RemoteCall list"
  ls_data :: LsData
  ls_cfg :: CfgSlot
  injected :: "FirebaseConfig option"

definition persisted :: "CfgSlot \<Rightarrow> FirebaseConfig option" where
  "persisted slot = (case slot of CfgItem c \<Rightarrow> Some c | CfgBad \<Rightarrow> None | CfgNone \<Rightarrow> None)"

text \<open>
  \<open>loadFirebaseConfig\<close>: an injected object with a truthy \<open>apiKey\<close> wins; otherwise the
  persisted copy; any exception gives \<open>null\<close>.
\<close>

definition loadFirebaseConfig :: "AppState \<Rightarrow> FirebaseConfig option" where
  "loadFirebaseConfig s =
    (case injected s of
       Some g \<Rightarrow>
         (if c_apiKey g = [] then persisted (ls_cfg s)
          else Some \<lparr>c_apiKey = c_apiKey g, c_authDomain = c_authDomain g,
                      c_projectId = c_projectId g, c_orgKey = or_default (c_orgKey g)\<rparr>)
     | None \<Rightarrow> persisted (ls_cfg s))"

definition saveFirebaseConfig :: "FirebaseConfig \<Rightarrow> AppState \<Rightarrow> AppState" where
  "saveFirebaseConfig cfg s = s\<lparr>ls_cfg := CfgItem cfg\<rparr>"

definition clearFirebaseConfig :: "AppState \<Rightarrow> AppState" where
  "clearFirebaseConfig s = s\<lparr>ls_cfg := CfgNone\<rparr>"

text \<open>\<open>ensureFirebase\<close> yields handles exactly when a configuration is loaded.\<close>

definition ensureFirebase :: "AppState \<Rightarrow> bool" where
  "ensureFirebase s = (case loadFirebaseConfig s of None \<Rightarrow> False | Some cfg \<Rightarrow> True)"

text \<open>The \<open>orgKey\<close> that \<open>cfg?.orgKey || "default"\<close> evaluates to.\<close>

definition cfgOrgKey :: "AppState \<Rightarrow> string" where
  "cfgOrgKey s = (case loadFirebaseConfig s of None \<Rightarrow> ''default'' | Some cfg \<Rightarrow> or_default (c_orgKey cfg))"

text \<open>The \<open>useState\<close> initialisers.\<close>

definition initState :: "LsData \<Rightarrow> CfgSlot \<Rightarrow> FirebaseConfig option \<Rightarrow> AppState" where
  "initState lsd lsc glob =
    (let env = \<lparr>mode = demo, warehouses = [], vessels = [], user = None, orgKey = [],
                 db = False, auth = False, authListener = False, subscription = None,
                 issued = [], ls_data = lsd, ls_cfg = lsc, injected = glob\<rparr>
     in env\<lparr>orgKey := cfgOrgKey env\<rparr>)"

subsection \<open>Effects\<close>

text \<open>The \<open>try\<close> block of the boot effect: what is loaded from the \<open>LS_KEY\<close> slot.\<close>

definition loadDemo :: "LsData \<Rightarrow> int \<Rightarrow> WarehouseT list \<times> VesselT list" where
  "loadDemo saved t0 =
    (case saved of
       NoItem \<Rightarrow> (SAMPLE_warehouses t0, SAMPLE_vessels t0)
     | BadJson \<Rightarrow> (SAMPLE_warehouses t0, SAMPLE_vessels t0)
     | Item ws vs \<Rightarrow>
         (case ws of Some a \<Rightarrow> a | None \<Rightarrow> SAMPLE_warehouses t0,
          case vs of Some b \<Rightarrow> b | None \<Rightarrow> SAMPLE_vessels t0))"

text \<open>
  The persistence effect: in demo mode both collections are written to the \<open>LS_KEY\<close> slot.
\<close>

definition persistEffect :: "AppState \<Rightarrow> AppState" where
  "persistEffect s =
    (if mode s = demo then s\<lparr>ls_data := Item (Some (warehouses s)) (Some (vessels s))\<rparr> else s)"

text \<open>
  The realtime-sync effect: the previous listeners are released, and new ones are opened
  on the configured namespace when the mode is cloud, a database handle is set and a
  configuration is loaded.
\<close>

definition syncEffect :: "AppState \<Rightarrow> AppState" where
  "syncEffect s =
    (if mode s = cloud then
       (if db s then
          (case loadFirebaseConfig s of
             None \<Rightarrow> s\<lparr>subscription := None\<rparr>
           | Some cfg \<Rightarrow> s\<lparr>subscription := Some (or_default (c_orgKey cfg))\<rparr>)
        else s\<lparr>subscription := None\<rparr>)
     else s\<lparr>subscription := None\<rparr>)"

text \<open>
  After a handler has run, React re-renders and re-runs the effects whose dependencies
  changed. The persistence effect is idempotent and is re-run here after every handler;
  the sync effect is re-run when \<open>mode\<close>, \<open>db\<close> or \<open>orgKey\<close> changed.
\<close>

definition rerender :: "AppState \<Rightarrow> AppState \<Rightarrow> AppState" where
  "rerender old new =
    (let s1 = persistEffect new
     in if (mode old, db old, orgKey old) = (mode new, db new, orgKey new) then s1
        else syncEffect s1)"

text \<open>
  The boot effect: load the demo data, and when a configuration is present set the
  handles and watch the auth state.
\<close>

definition bootEffect :: "int \<Rightarrow> AppState \<Rightarrow> AppState" where
  "bootEffect t0 s =
    (let (ws, vs) = loadDemo (ls_data s) t0;
         s1 = s\<lparr>warehouses := ws, vessels := vs\<rparr>
     in if ensureFirebase s
        then s1\<lparr>db := True, auth := True, orgKey := cfgOrgKey s, authListener := True\<rparr>
        else s1)"

text \<open>
  Mounting: the boot effect reads the slot before the first run of the persistence effect
  overwrites it, and the render that follows persists what was loaded.
\<close>

definition mount :: "int \<Rightarrow> AppState \<Rightarrow> AppState" where
  "mount t0 s = rerender s (bootEffect t0 s)"

subsection \<open>CRUD: dispatch to demo (localStorage) or cloud (Firestore)\<close>

text \<open>
  Each handler takes what the environment supplies: \<open>uuid\<close> is \<open>crypto.randomUUID()\<close>,
  \<open>now\<close> is \<open>new Date()\<close>, \<open>reply\<close> is the answer of \<open>addDoc\<close> (the id the server assigned,
  or \<open>None\<close> when the call is rejected) and \<open>ok\<close> says whether \<open>updateDoc\<close>/\<open>deleteDoc\<close>
  succeeded. The \<open>createdAt: serverTimestamp()\<close> field of a new document is filled by the
  server and is not part of the payload modelled here.
\<close>

definition createWarehouse ::
  "AppState \<Rightarrow> WarehouseDraft \<Rightarrow> string \<Rightarrow> int \<Rightarrow> string option \<Rightarrow> AppState \<times> Settled" where
  "createWarehouse s w uuid now reply =
    (if mode s = demo then
       (s\<lparr>warehouses :=
            \<lparr>w_name = w_name w, w_location = w_location w, w_capacityTons = w_capacityTons w,
             w_usedTons = w_usedTons w, w_status = w_status w, w_lastUpdate = now,
             w_id = uuid\<rparr> # warehouses s\<rparr>, Resolved None)
     else if db s then
       (s\<lparr>issued := issued s @ [AddWarehouseDoc (W (colRefs (orgKey s))) (w\<lparr>w_lastUpdate := now\<rparr>)]\<rparr>,
        case reply of Some i \<Rightarrow> Resolved None | None \<Rightarrow> Rejected)
     else (s, Resolved None))"

definition updateWarehouse :: "AppState \<Rightarrow> WarehouseT \<Rightarrow> int \<Rightarrow> bool \<Rightarrow> AppState \<times> Settled" where
  "updateWarehouse s w now ok =
    (if mode s = demo then
       (s\<lparr>warehouses :=
            map (\<lambda>x. if w_id x = w_id w then w\<lparr>w_lastUpdate := now\<rparr> else x) (warehouses s)\<rparr>,
        Resolved None)
     else if db s then
       (s\<lparr>issued := issued s @
            [UpdateWarehouseDoc (warehouseDoc (orgKey s) (w_id w)) (w\<lparr>w_lastUpdate := now\<rparr>)]\<rparr>,
        if ok then Resolved None else Rejected)
     else (s, Resolved None))"

definition deleteWarehouse :: "AppState \<Rightarrow> string \<Rightarrow> bool \<Rightarrow> AppState \<times> Settled" where
  "deleteWarehouse s i ok =
    (if mode s = demo then
       (s\<lparr>warehouses := filter (\<lambda>x. w_id x \<noteq> i) (warehouses s)\<rparr>, Resolved None)
     else if db s then
       (s\<lparr>issued := issued s @ [DeleteDoc (warehouseDoc (orgKey s) i)]\<rparr>,
        if ok then Resolved None else Rejected)
     else (s, Resolved None))"

definition createVessel ::
  "AppState \<Rightarrow> VesselDraft \<Rightarrow> string \<Rightarrow> string option \<Rightarrow> AppState \<times> Settled" where
  "createVessel s v uuid reply =
    (if mode s = demo then
       (s\<lparr>vessels :=
            \<lparr>v_name = v_name v, v_cargo = v_cargo v, v_tonnage = v_tonnage v,
             v_status = v_status v, v_etaPort = v_etaPort v, v_eta = v_eta v,
             v_lastPosition = v_lastPosition v, v_id = uuid\<rparr> # vessels s\<rparr>, Resolved None)
     else if db s then
       (s\<lparr>issued := issued s @ [AddVesselDoc (V (colRefs (orgKey s))) v]\<rparr>,
        case reply of Some i \<Rightarrow> Resolved None | None \<Rightarrow> Rejected)
     else (s, Resolved None))"

definition updateVessel :: "AppState \<Rightarrow> VesselT \<Rightarrow> bool \<Rightarrow> AppState \<times> Settled" where
  "updateVessel s v ok =
    (if mode s = demo then
       (s\<lparr>vessels := map (\<lambda>x. if v_id x = v_id v then v else x) (vessels s)\<rparr>, Resolved None)
     else if db s then
       (s\<lparr>issued := issued s @ [UpdateVesselDoc (vesselDoc (orgKey s) (v_id v)) v]\<rparr>,
        if ok then Resolved None else Rejected)
     else (s, Resolved None))"

definition deleteVessel :: "AppState \<Rightarrow> string \<Rightarrow> bool \<Rightarrow> AppState \<times> Settled" where
  "deleteVessel s i ok =
    (if mode s = demo then
       (s\<lparr>vessels := filter (\<lambda>x. v_id x \<noteq> i) (vessels s)\<rparr>, Resolved None)
     else if db s then
       (s\<lparr>issued := issued s @ [DeleteDoc (vesselDoc (orgKey s) i)]\<rparr>,
        if ok then Resolved None else Rejected)
     else (s, Resolved None))"

subsection \<open>Settings and authentication\<close>

text \<open>The \<open>onOpenChange(false)\<close> wiring of the settings dialog.\<close>

definition onOpenChange_close :: "AppState \<Rightarrow> AppState" where
  "onOpenChange_close s =
    (if ensureFirebase s then s\<lparr>db := True, auth := True, orgKey := cfgOrgKey s\<rparr> else s)"

text \<open>\<open>save\<close> of the settings dialog.\<close>

definition settingsSave :: "string \<Rightarrow> string \<Rightarrow> string \<Rightarrow> string \<Rightarrow> AppState \<Rightarrow> AppState" where
  "settingsSave a d p k s =
    (if a = [] \<or> d = [] \<or> p = [] then s
     else onOpenChange_close
            (saveFirebaseConfig \<lparr>c_apiKey = a, c_authDomain = d, c_projectId = p, c_orgKey = k\<rparr> s))"

text \<open>\<open>doSignIn\<close>; \<open>popup\<close> is the user the provider returns, or \<open>None\<close> when it fails.\<close>

definition doSignIn :: "string option \<Rightarrow> AppState \<Rightarrow> AppState" where
  "doSignIn popup s =
    (if ensureFirebase s then
       (case popup of None \<Rightarrow> s | Some u \<Rightarrow> s\<lparr>user := Some u, mode := cloud\<rparr>)
     else s)"

definition doSignOut :: "AppState \<Rightarrow> AppState" where
  "doSignOut s = (if auth s then s\<lparr>user := None, mode := demo\<rparr> else s)"

text \<open>The \<open>onAuthStateChanged\<close> callback, delivered only while the listener is registered.\<close>

definition authCallback :: "string option \<Rightarrow> AppState \<Rightarrow> AppState" where
  "authCallback u s =
    (if authListener s
     then s\<lparr>user := u, mode := (case u of Some x \<Rightarrow> cloud | None \<Rightarrow> demo)\<rparr>
     else s)"

text \<open>The \<open>onSnapshot\<close> callbacks, delivered only while the listeners are open.\<close>

definition snapshotW :: "WarehouseT list \<Rightarrow> AppState \<Rightarrow> AppState" where
  "snapshotW arr s = (case subscription s of None \<Rightarrow> s | Some k \<Rightarrow> s\<lparr>warehouses := arr\<rparr>)"

definition snapshotV :: "VesselT list \<Rightarrow> AppState \<Rightarrow> AppState" where
  "snapshotV arr s = (case subscription s of None \<Rightarrow> s | Some k \<Rightarrow> s\<lparr>vessels := arr\<rparr>)"

subsection \<open>Events\<close>

datatype Event =
    CreateWarehouse WarehouseDraft string int "string option"
  | UpdateWarehouse WarehouseT int bool
  | DeleteWarehouse string bool
  | CreateVessel VesselDraft string "string option"
  | UpdateVessel VesselT bool
  | DeleteVessel string bool
  | AuthStateChanged "string option"
  | SnapshotW "WarehouseT list"
  | SnapshotV "VesselT list"
  | SettingsSave string string string string
  | SettingsReset
  | SettingsClose
  | SignIn "string option"
  | SignOut

fun handle :: "Event \<Rightarrow> AppState \<Rightarrow> AppState" where
  "handle (CreateWarehouse w uuid now reply) s = fst (createWarehouse s w uuid now reply)"
| "handle (UpdateWarehouse w now ok) s = fst (updateWarehouse s w now ok)"
| "handle (DeleteWarehouse i ok) s = fst (deleteWarehouse s i ok)"
| "handle (CreateVessel v uuid reply) s = fst (createVessel s v uuid reply)"
| "handle (UpdateVessel v ok) s = fst (updateVessel s v ok)"
| "handle (DeleteVessel i ok) s = fst (deleteVessel s i ok)"
| "handle (AuthStateChanged u) s = authCallback u s"
| "handle (SnapshotW arr) s = snapshotW arr s"
| "handle (SnapshotV arr) s = snapshotV arr s"
| "handle (SettingsSave a d p k) s = settingsSave a d p k s"
| "handle SettingsReset s = clearFirebaseConfig s"
| "handle SettingsClose s = onOpenChange_close s"
| "handle (SignIn popup) s = doSignIn popup s"
| "handle SignOut s = doSignOut s"

definition step :: "Event \<Rightarrow> AppState \<Rightarrow> AppState" where
  "step e s = rerender s (handle e s)"

fun run :: "Event list \<Rightarrow> AppState \<Rightarrow> AppState" where
  "run [] s = s"
| "run (e # es) s = run es (step e s)"

text \<open>The gateway's mutations, and the snapshot deliveries.\<close>

fun isMutation :: "Event \<Rightarrow> bool" where
  "isMutation (CreateWarehouse w uuid now reply) = True"
| "isMutation (UpdateWarehouse w now ok) = True"
| "isMutation (DeleteWarehouse i ok) = True"
| "isMutation (CreateVessel v uuid reply) = True"
| "isMutation (UpdateVessel v ok) = True"
| "isMutation (DeleteVessel i ok) = True"
| "isMutation e = False"

fun isSnapshot :: "Event \<Rightarrow> bool" where
  "isSnapshot (SnapshotW arr) = True"
| "isSnapshot (SnapshotV arr) = True"
| "isSnapshot e = False"

text \<open>The states reached after each event of a sequence, in order.\<close>

fun trace :: "Event list \<Rightarrow> AppState \<Rightarrow> AppState list" where
  "trace [] s = []"
| "trace (e # es) s = step e s # trace es (step e s)"

text \<open>Every event of the sequence occurs while \<open>loadFirebaseConfig\<close> finds no configuration.\<close>

fun noConfigRun :: "Event list \<Rightarrow> AppState \<Rightarrow> bool" where
  "noConfigRun [] s = True"
| "noConfigRun (e # es) s = (loadFirebaseConfig s = None \<and> noConfigRun es (step e s))"

subsection \<open>Example states\<close>

definition exampleCfg :: FirebaseConfig where
  "exampleCfg = \<lparr>c_apiKey = ''k'', c_authDomain = ''d'', c_projectId = ''p'', c_orgKey = ''acme''\<rparr>"

text \<open>A first visit without configuration: the sample data, in demo mode.\<close>

definition demoExample :: AppState where
  "demoExample = mount 0 (initState NoItem CfgNone None)"

text \<open>A first visit with a stored configuration, nobody signed in yet.\<close>

definition configuredExample :: AppState where
  "configuredExample = mount 0 (initState NoItem (CfgItem exampleCfg) None)"

text \<open>A first visit with a stored configuration, after the provider reported a user.\<close>

definition cloudExample :: AppState where
  "cloudExample =
    run [AuthStateChanged (Some ''u1'')] (mount 0 (initState NoItem (CfgItem exampleCfg) None))"

definition exampleDraft :: WarehouseDraft where
  "exampleDraft = \<lparr>w_name = ''Dock 9'', w_location = ''Baku'', w_capacityTons = 500,
     w_usedTons = 20, w_status = OK, w_lastUpdate = 7\<rparr>"

definition exampleVesselDraft :: VesselDraft where
  "exampleVesselDraft = \<lparr>v_name = ''VOLGA-1'', v_cargo = ''Wheat'', v_tonnage = 1200,
     v_status = Loading, v_etaPort = None, v_eta = None, v_lastPosition = None\<rparr>"

definition exampleEdit :: "string \<Rightarrow> WarehouseT" where
  "exampleEdit i = \<lparr>w_name = ''Dock 9'', w_location = ''Baku'', w_capacityTons = 500,
     w_usedTons = 20, w_status = Closed, w_lastUpdate = 7, w_id = i\<rparr>"

text \<open>A facility that exists only in the team's Firestore collection.\<close>

definition remoteWarehouse :: WarehouseT where
  "remoteWarehouse = \<lparr>w_name = ''Team Silo'', w_location = ''Aktau'', w_capacityTons = 100,
     w_usedTons = 1, w_status = OK, w_lastUpdate = 3, w_id = ''doc1''\<rparr>"

subsection \<open>The persisted snapshot agrees with the view\<close>

text \<open>
  In demo mode the \<open>LS_KEY\<close> slot holds exactly the two collections of the view, and
  loading it (directly, or by mounting the application afresh on that slot with any
  configuration) gives them back.
\<close>

definition inSync :: "int \<Rightarrow> CfgSlot \<Rightarrow> FirebaseConfig option \<Rightarrow> AppState \<Rightarrow> bool" where
  "inSync t0 lsc glob s =
    (mode s = demo
     \<and> ls_data s = Item (Some (warehouses s)) (Some (vessels s))
     \<and> loadDemo (ls_data s) t0 = (warehouses s, vessels s)
     \<and> warehouses (mount t0 (initState (ls_data s) lsc glob)) = warehouses s
     \<and> vessels (mount t0 (initState (ls_data s) lsc glob)) = vessels s)"

section \<open>Capacity utilisation\<close>

text \<open>
  \<open>expo\<close> is the binary exponent, and the overflow test of \<open>fl\<close> is the comparison of the
  rounded value with \<open>2 ^ 1024\<close>.
\<close>

lemma pow2_pos: "0 < pow2 k"
  by (simp add: pow2_def)

lemma pow2_nonneg_exp: "0 \<le> k \<Longrightarrow> pow2 k = 2 ^ nat k"
  by (simp add: pow2_def)

lemma pow2_neg_exp: "k \<le> 0 \<Longrightarrow> pow2 k = 1 / 2 ^ nat (- k)"
  by (cases "k = 0") (simp_all add: pow2_def)

lemma expo_bounds:
  assumes "0 < x"
  shows "pow2 (expo x) \<le> x \<and> x < pow2 (expo x + 1)"
proof (cases "1 \<le> x")
  case True
  define n where "n = \<lfloor>x\<rfloor>"
  have n: "0 < n" using True by (simp add: n_def)
  have b: "2 ^ nat (bitlen n - 1) \<le> n" "n < 2 ^ nat (bitlen n)"
    using bitlen_bounds[OF n] by simp_all
  have b1: "1 \<le> bitlen n" using n by (simp add: bitlen_alt_def)
  have e: "expo x = bitlen n - 1" using True by (simp add: expo_def n_def)
  have "(of_int (2 ^ nat (bitlen n - 1)) :: rat) \<le> of_int n"
    using b(1) of_int_le_iff by blast
  then have lo: "pow2 (expo x) \<le> x"
    using b1 by (simp add: e pow2_nonneg_exp n_def le_floor_iff)
  have "n + 1 \<le> 2 ^ nat (bitlen n)" using b(2) by simp
  then have "(of_int (n + 1) :: rat) \<le> of_int (2 ^ nat (bitlen n))"
    using of_int_le_iff by blast
  moreover have "x < of_int (n + 1)" using floor_correct[of x] by (simp add: n_def)
  ultimately have hi: "x < pow2 (expo x + 1)"
    using b1 by (simp add: e pow2_nonneg_exp)
  show ?thesis using lo hi by simp
next
  case False
  define y where "y = 1 / x"
  define k where "k = \<lceil>y\<rceil> - 1"
  have x1: "x < 1" using False by simp
  have y1: "1 < y" using assms x1 by (simp add: y_def)
  have k: "0 < k" using y1 by (simp add: k_def less_ceiling_iff)
  have b: "2 ^ nat (bitlen k - 1) \<le> k" "k < 2 ^ nat (bitlen k)"
    using bitlen_bounds[OF k] by simp_all
  have b1: "1 \<le> bitlen k" using k by (simp add: bitlen_alt_def)
  have e: "expo x = - bitlen k" using False by (simp add: expo_def k_def y_def)
  have yk: "of_int k < y" "y \<le> of_int k + 1"
    by (simp_all add: k_def) linarith+
  have "k + 1 \<le> 2 ^ nat (bitlen k)" using b(2) by simp
  then have "(of_int (k + 1) :: rat) \<le> of_int (2 ^ nat (bitlen k))"
    using of_int_le_iff by blast
  then have "of_int k + 1 \<le> (2::rat) ^ nat (bitlen k)" by simp
  then have yu: "y \<le> 2 ^ nat (bitlen k)" using yk(2) by linarith
  have "(of_int (2 ^ nat (bitlen k - 1)) :: rat) \<le> of_int k"
    using b(1) of_int_le_iff by blast
  then have "(2::rat) ^ nat (bitlen k - 1) \<le> of_int k" by simp
  then have yl: "2 ^ nat (bitlen k - 1) < y" using yk(1) by linarith
  have xy: "x = 1 / y" using assms by (simp add: y_def)
  have p: "pow2 (expo x) = 1 / 2 ^ nat (bitlen k)"
    using b1 by (simp add: e pow2_neg_exp)
  have "1 / 2 ^ nat (bitlen k) \<le> 1 / y"
    using yu y1 by (simp add: frac_le)
  then have lo: "pow2 (expo x) \<le> x" using p xy by simp
  have "- (expo x + 1) = bitlen k - 1" by (simp add: e)
  then have p2: "pow2 (expo x + 1) = 1 / 2 ^ nat (bitlen k - 1)"
    using b1 pow2_neg_exp[of "expo x + 1"] by (simp add: e)
  have "1 / y < 1 / 2 ^ nat (bitlen k - 1)"
    using yl by (simp add: frac_less2)
  then have hi: "x < pow2 (expo x + 1)" using p2 xy by simp
  show ?thesis using lo hi by simp
qed

lemma rne_nonneg: "0 \<le> q \<Longrightarrow> 0 \<le> rne q"
  by (simp add: rne_def Let_def)

lemma ulp_pos: "0 < ulp x"
  by (simp add: ulp_def pow2_pos)

lemma fl_ge0: "0 \<le> x \<Longrightarrow> ge0 (fl x)"
  using ulp_pos[of x] rne_nonneg[of "x / ulp x"]
  by (simp add: fl_def Let_def)

lemma Math_max_1:
  assumes "cap \<noteq> NaN"
  shows "Math_max cap (Finite 1) = PosInf \<and> cap = PosInf
    \<or> (\<exists>c. 1 \<le> c \<and> Math_max cap (Finite 1) = Finite c)"
  using assms by (cases cap) auto

lemma js_div_ge0:
  assumes "ge0 used" and "1 \<le> c"
  shows "ge0 (js_div used (Finite c))"
  using assms by (cases used) (auto intro: fl_ge0)

lemma js_div_PosInf:
  assumes "ge0 used" and "used \<noteq> PosInf"
  shows "js_div used PosInf = Finite 0"
  using assms by (cases used) auto

lemma js_mul_100_ge0: "ge0 q \<Longrightarrow> ge0 (js_mul q (Finite 100))"
  by (cases q) (auto intro: fl_ge0)

lemma Math_round_ge0: "ge0 p \<Longrightarrow> ge0 (Math_round p)"
  by (cases p) auto

lemma Math_min_100: "ge0 r \<Longrightarrow> in_0_100 (Math_min (Finite 100) r)"
  by (cases r) auto

lemma pct_range:
  assumes "ge0 used" and "cap \<noteq> NaN" and "\<not> (used = PosInf \<and> cap = PosInf)"
  shows "in_0_100 (pct used cap)"
proof -
  have "ge0 (js_div used (Math_max cap (Finite 1)))"
    using Math_max_1[OF assms(2)] js_div_ge0[OF assms(1)] js_div_PosInf[OF assms(1)] assms(3)
    by auto
  then show ?thesis
    unfolding pct_def by (intro Math_min_100 Math_round_ge0 js_mul_100_ge0)
qed

lemma pct_NaN_cap: "pct used NaN = NaN"
  by (cases used) (simp_all add: pct_def)

lemma pct_Inf_Inf: "pct PosInf PosInf = NaN"
  by (simp add: pct_def)






lemma pow2_powi: "pow2 k = power_int 2 k"
  by (simp add: pow2_def power_int_def inverse_eq_divide power_one_over)

lemma pow2_mono: "a \<le> b \<Longrightarrow> pow2 a \<le> pow2 b"
  by (simp add: pow2_powi power_int_increasing)

lemma overflow_iff:
  assumes "r \<noteq> 0"
  shows "1024 \<le> expo \<bar>r\<bar> \<longleftrightarrow> 2 ^ 1024 \<le> \<bar>r\<bar>"
proof
  assume "1024 \<le> expo \<bar>r\<bar>"
  then have "pow2 1024 \<le> pow2 (expo \<bar>r\<bar>)" by (rule pow2_mono)
  moreover have "pow2 (expo \<bar>r\<bar>) \<le> \<bar>r\<bar>" using expo_bounds[of "\<bar>r\<bar>"] assms by simp
  moreover have "pow2 1024 = 2 ^ 1024" by (simp add: pow2_def)
  ultimately show "2 ^ 1024 \<le> \<bar>r\<bar>" by linarith
next
  assume h: "2 ^ 1024 \<le> \<bar>r\<bar>"
  show "1024 \<le> expo \<bar>r\<bar>"
  proof (rule ccontr)
    assume "\<not> 1024 \<le> expo \<bar>r\<bar>"
    then have "expo \<bar>r\<bar> + 1 \<le> 1024" by simp
    then have "pow2 (expo \<bar>r\<bar> + 1) \<le> pow2 1024" by (rule pow2_mono)
    moreover have "\<bar>r\<bar> < pow2 (expo \<bar>r\<bar> + 1)" using expo_bounds[of "\<bar>r\<bar>"] assms by simp
    moreover have "pow2 1024 = 2 ^ 1024" by (simp add: pow2_def)
    ultimately show False using h by linarith
  qed
qed

text \<open>The arithmetic is that of doubles, not of exact fractions: 29 / 200 * 100 is below 14.5.\<close>

lemma pct_doubles:
  "pct (Finite 29) (Finite 200) = Finite 14 \<and> pct (Finite 57) (Finite 200) = Finite 28
   \<and> pct (Finite 23) (Finite 40) = Finite 57"
  by code_simp

lemma pct_sample: "pct (Finite 7800) (Finite 8000) = Finite 98"
  by code_simp

text \<open>
  Claim C5, as stated: for every used \<ge> 0 and every capacity the result lies between 0
  and 100. With used = 10 and a NaN capacity the result is NaN.
\<close>

theorem pct_nan_capacity_counterexample:
  "ge0 (Finite 10) \<and> \<not> in_0_100 (pct (Finite 10) NaN)"
  by (simp add: pct_NaN_cap)

text \<open>
  Claim C5, amended. The utilisation of used = 7800 on capacity = 8000 is exactly 98, and
  for every used \<ge> 0 and every capacity other than NaN (zero, negative, infinite or below
  used included), except when used and capacity are both plus infinity, the result lies
  between 0 and 100; in the two excepted cases the result is NaN.
\<close>

theorem pct_sample_and_range:
  "pct (Finite 7800) (Finite 8000) = Finite 98
   \<and> (\<forall>used cap. ge0 used \<longrightarrow> cap \<noteq> NaN \<longrightarrow> \<not> (used = PosInf \<and> cap = PosInf) \<longrightarrow>
         in_0_100 (pct used cap))
   \<and> (\<forall>used. pct used NaN = NaN)
   \<and> pct PosInf PosInf = NaN"
  using pct_sample pct_range pct_NaN_cap pct_Inf_Inf by blast

theorem pct_sample_and_range_witness:
  "ge0 (Finite 9000) \<and> Finite 0 \<noteq> NaN \<and> Finite 9000 \<noteq> PosInf
   \<and> in_0_100 (pct (Finite 9000) (Finite 0))
   \<and> ge0 PosInf \<and> Finite (- 5) \<noteq> NaN \<and> Finite (- 5) \<noteq> PosInf
   \<and> in_0_100 (pct PosInf (Finite (- 5)))"
  using pct_sample_and_range by simp

section \<open>Evaluating the model\<close>

lemmas app_defs =
  mount_def initState_def bootEffect_def rerender_def persistEffect_def syncEffect_def
  loadDemo_def ensureFirebase_def loadFirebaseConfig_def persisted_def cfgOrgKey_def
  or_default_def step_def authCallback_def snapshotW_def snapshotV_def doSignIn_def
  doSignOut_def settingsSave_def onOpenChange_close_def saveFirebaseConfig_def
  clearFirebaseConfig_def

lemmas crud_defs =
  createWarehouse_def updateWarehouse_def deleteWarehouse_def
  createVessel_def updateVessel_def deleteVessel_def

lemma demoExample_mode: "mode demoExample = demo"
  by (simp add: demoExample_def app_defs Let_def)

lemma demoExample_warehouses: "warehouses demoExample = SAMPLE_warehouses 0"
  by (simp add: demoExample_def app_defs Let_def)

lemma demoExample_vessels: "vessels demoExample = SAMPLE_vessels 0"
  by (simp add: demoExample_def app_defs Let_def)

lemma cloudExample_mode: "mode cloudExample = cloud"
  by (simp add: cloudExample_def exampleCfg_def app_defs Let_def)

lemma cloudExample_db: "db cloudExample"
  by (simp add: cloudExample_def exampleCfg_def app_defs Let_def)

lemma cloudExample_orgKey: "orgKey cloudExample = ''acme''"
  by (simp add: cloudExample_def exampleCfg_def app_defs Let_def)

lemma cloudExample_local:
  "ls_data cloudExample = Item (Some (SAMPLE_warehouses 0)) (Some (SAMPLE_vessels 0))
   \<and> warehouses cloudExample = SAMPLE_warehouses 0 \<and> vessels cloudExample = SAMPLE_vessels 0
   \<and> auth cloudExample \<and> subscription cloudExample = Some ''acme'' \<and> issued cloudExample = []"
  by (simp add: cloudExample_def exampleCfg_def app_defs Let_def)

lemma rerender_mode: "mode (rerender old new) = mode new"
  by (simp add: rerender_def persistEffect_def syncEffect_def Let_def split: option.splits)

lemma rerender_authListener: "authListener (rerender old new) = authListener new"
  by (simp add: rerender_def persistEffect_def syncEffect_def Let_def split: option.splits)

lemma rerender_warehouses: "warehouses (rerender old new) = warehouses new"
  by (simp add: rerender_def persistEffect_def syncEffect_def Let_def split: option.splits)

lemma rerender_vessels: "vessels (rerender old new) = vessels new"
  by (simp add: rerender_def persistEffect_def syncEffect_def Let_def split: option.splits)

section \<open>Cloud paths\<close>

text \<open>
  Claim C3, as stated: for every orgKey the three collections are addressed at
  \<open>tenants/{orgKey}/storageFacilities\<close>, \<open>tenants/{orgKey}/vessels\<close> and
  \<open>tenants/{orgKey}/healthchecks\<close>. For the namespace \<open>acme\<close> this is not what
  \<open>colRefs\<close> builds.
\<close>

theorem colRefs_tenants_counterexample:
  "\<not> (W (colRefs ''acme'') = ''tenants/acme/storageFacilities''
      \<and> V (colRefs ''acme'') = ''tenants/acme/vessels''
      \<and> H (colRefs ''acme'') = ''tenants/acme/healthchecks'')"
  by (simp add: colRefs_def)

text \<open>
  Claim C3, amended: for every orgKey the three collections are addressed at
  \<open>orgs/{orgKey}/warehouses\<close>, \<open>orgs/{orgKey}/vessels\<close> and \<open>orgs/{orgKey}/healthchecks\<close>;
  in cloud mode with a database handle, create adds to the first two of these under the
  current orgKey, and update and delete address the document \<open>{id}\<close> directly below them.
\<close>

theorem colRefs_orgs_paths:
  "W (colRefs k) = ''orgs/'' @ k @ ''/warehouses''
   \<and> V (colRefs k) = ''orgs/'' @ k @ ''/vessels''
   \<and> H (colRefs k) = ''orgs/'' @ k @ ''/healthchecks''
   \<and> (mode s = cloud \<longrightarrow> db s \<longrightarrow>
        issued (fst (createWarehouse s w uuid now reply)) =
          issued s @ [AddWarehouseDoc (''orgs/'' @ orgKey s @ ''/warehouses'')
                        (w\<lparr>w_lastUpdate := now\<rparr>)]
        \<and> issued (fst (updateWarehouse s x now ok)) =
          issued s @ [UpdateWarehouseDoc (''orgs/'' @ orgKey s @ ''/warehouses/'' @ w_id x)
                        (x\<lparr>w_lastUpdate := now\<rparr>)]
        \<and> issued (fst (deleteWarehouse s i ok)) =
          issued s @ [DeleteDoc (''orgs/'' @ orgKey s @ ''/warehouses/'' @ i)]
        \<and> issued (fst (createVessel s v uuid reply)) =
          issued s @ [AddVesselDoc (''orgs/'' @ orgKey s @ ''/vessels'') v]
        \<and> issued (fst (updateVessel s y ok)) =
          issued s @ [UpdateVesselDoc (''orgs/'' @ orgKey s @ ''/vessels/'' @ v_id y) y]
        \<and> issued (fst (deleteVessel s i ok)) =
          issued s @ [DeleteDoc (''orgs/'' @ orgKey s @ ''/vessels/'' @ i)])"
  by (simp add: colRefs_def warehouseDoc_def vesselDoc_def crud_defs)

theorem colRefs_orgs_paths_witness:
  "mode cloudExample = cloud \<and> db cloudExample
   \<and> issued (fst (createWarehouse cloudExample exampleDraft ''u9'' 5 (Some ''doc42''))) =
       [AddWarehouseDoc ''orgs/acme/warehouses'' (exampleDraft\<lparr>w_lastUpdate := 5\<rparr>)]
   \<and> issued (fst (updateWarehouse cloudExample (exampleEdit ''w2'') 5 True)) =
       [UpdateWarehouseDoc ''orgs/acme/warehouses/w2'' ((exampleEdit ''w2'')\<lparr>w_lastUpdate := 5\<rparr>)]
   \<and> issued (fst (deleteWarehouse cloudExample ''w2'' True)) =
       [DeleteDoc ''orgs/acme/warehouses/w2'']
   \<and> issued (fst (createVessel cloudExample exampleVesselDraft ''u9'' (Some ''doc43''))) =
       [AddVesselDoc ''orgs/acme/vessels'' exampleVesselDraft]
   \<and> issued (fst (deleteVessel cloudExample ''v1'' True)) = [DeleteDoc ''orgs/acme/vessels/v1'']"
  using colRefs_orgs_paths[where s = cloudExample and w = exampleDraft and uuid = "''u9''"
      and now = 5 and reply = "Some ''doc42''" and x = "exampleEdit ''w2''" and ok = True
      and i = "''w2''" and v = exampleVesselDraft]
    colRefs_orgs_paths[where s = cloudExample and i = "''v1''" and ok = True
      and v = exampleVesselDraft and uuid = "''u9''" and reply = "Some ''doc43''"]
  by (simp add: cloudExample_mode cloudExample_db cloudExample_orgKey cloudExample_local
      exampleEdit_def)

section \<open>The gateway in demo mode\<close>

text \<open>
  Claim C8. In demo mode, updating with a record \<open>w\<close> leaves the whole state unchanged when
  no facility carries \<open>w\<close>'s id; otherwise the list keeps its length, every position that
  carries the id holds \<open>w\<close> with \<open>lastUpdate\<close> set to the current time, every other position
  is untouched, and the vessels are untouched.
\<close>

theorem updateWarehouse_demo:
  assumes "mode s = demo"
  shows "((\<forall>x \<in> set (warehouses s). w_id x \<noteq> w_id w) \<longrightarrow> fst (updateWarehouse s w now ok) = s)
    \<and> length (warehouses (fst (updateWarehouse s w now ok))) = length (warehouses s)
    \<and> (\<forall>i < length (warehouses s).
          warehouses (fst (updateWarehouse s w now ok)) ! i =
            (if w_id (warehouses s ! i) = w_id w then w\<lparr>w_lastUpdate := now\<rparr>
             else warehouses s ! i))
    \<and> vessels (fst (updateWarehouse s w now ok)) = vessels s"
proof -
  have "map (\<lambda>x. if w_id x = w_id w then w\<lparr>w_lastUpdate := now\<rparr> else x) (warehouses s) = warehouses s"
    if "\<forall>x \<in> set (warehouses s). w_id x \<noteq> w_id w"
    using that by (simp add: map_idI)
  then show ?thesis using assms by (simp add: updateWarehouse_def)
qed

theorem updateWarehouse_demo_witness:
  "mode demoExample = demo
   \<and> map w_id (warehouses demoExample) = [''w1'', ''w2'', ''w3'']
   \<and> fst (updateWarehouse demoExample (exampleEdit ''zz'') 5 True) = demoExample
   \<and> warehouses (fst (updateWarehouse demoExample (exampleEdit ''w2'') 5 True)) ! 1
       = (exampleEdit ''w2'')\<lparr>w_lastUpdate := 5\<rparr>
   \<and> warehouses (fst (updateWarehouse demoExample (exampleEdit ''w2'') 5 True)) ! 0
       = warehouses demoExample ! 0"
proof -
  have ids: "map w_id (warehouses demoExample) = [''w1'', ''w2'', ''w3'']"
    by (simp add: demoExample_warehouses SAMPLE_warehouses_def)
  have len: "length (warehouses demoExample) = 3"
    by (simp add: demoExample_warehouses SAMPLE_warehouses_def)
  have absent: "\<forall>x \<in> set (warehouses demoExample). w_id x \<noteq> w_id (exampleEdit ''zz'')"
    by (simp add: demoExample_warehouses SAMPLE_warehouses_def exampleEdit_def)
  have a: "fst (updateWarehouse demoExample (exampleEdit ''zz'') 5 True) = demoExample"
    using updateWarehouse_demo[OF demoExample_mode, where w = "exampleEdit ''zz''"] absent
    by blast
  have b: "\<forall>i < length (warehouses demoExample).
      warehouses (fst (updateWarehouse demoExample (exampleEdit ''w2'') 5 True)) ! i =
        (if w_id (warehouses demoExample ! i) = w_id (exampleEdit ''w2'')
         then (exampleEdit ''w2'')\<lparr>w_lastUpdate := 5\<rparr> else warehouses demoExample ! i)"
    using updateWarehouse_demo[OF demoExample_mode, where w = "exampleEdit ''w2''"]
    by blast
  have b1: "warehouses (fst (updateWarehouse demoExample (exampleEdit ''w2'') 5 True)) ! 1
       = (exampleEdit ''w2'')\<lparr>w_lastUpdate := 5\<rparr>"
    using b[rule_format, of 1] len
    by (simp add: demoExample_warehouses SAMPLE_warehouses_def exampleEdit_def)
  have b0: "warehouses (fst (updateWarehouse demoExample (exampleEdit ''w2'') 5 True)) ! 0
       = warehouses demoExample ! 0"
    using b[rule_format, of 0] len
    by (simp add: demoExample_warehouses SAMPLE_warehouses_def exampleEdit_def)
  show ?thesis using demoExample_mode ids a b1 b0 by simp
qed

lemma filter_absent: "i \<notin> f ` set xs \<Longrightarrow> filter (\<lambda>x. f x \<noteq> i) xs = xs"
  by (induction xs) auto

text \<open>
  Claim C9. In demo mode, deleting an id keeps exactly the records with another id, in their
  order; deleting an id that no record carries leaves the whole state (timestamps included)
  unchanged and is not an error; deleting twice is the same as deleting once. This holds
  for facilities and for vessels.
\<close>

theorem delete_demo:
  assumes "mode s = demo"
  shows "i \<notin> w_id ` set (warehouses (fst (deleteWarehouse s i ok)))
    \<and> set (warehouses (fst (deleteWarehouse s i ok))) = {x \<in> set (warehouses s). w_id x \<noteq> i}
    \<and> warehouses (fst (deleteWarehouse s i ok)) = filter (\<lambda>x. w_id x \<noteq> i) (warehouses s)
    \<and> (i \<notin> w_id ` set (warehouses s) \<longrightarrow> fst (deleteWarehouse s i ok) = s)
    \<and> fst (deleteWarehouse (fst (deleteWarehouse s i ok)) i ok') = fst (deleteWarehouse s i ok)
    \<and> snd (deleteWarehouse s i ok) = Resolved None
    \<and> j \<notin> v_id ` set (vessels (fst (deleteVessel s j ok)))
    \<and> set (vessels (fst (deleteVessel s j ok))) = {x \<in> set (vessels s). v_id x \<noteq> j}
    \<and> vessels (fst (deleteVessel s j ok)) = filter (\<lambda>x. v_id x \<noteq> j) (vessels s)
    \<and> (j \<notin> v_id ` set (vessels s) \<longrightarrow> fst (deleteVessel s j ok) = s)
    \<and> fst (deleteVessel (fst (deleteVessel s j ok)) j ok') = fst (deleteVessel s j ok)
    \<and> snd (deleteVessel s j ok) = Resolved None"
  using assms by (auto simp: deleteWarehouse_def deleteVessel_def filter_absent)

theorem delete_demo_witness:
  "mode demoExample = demo
   \<and> map w_id (warehouses (fst (deleteWarehouse demoExample ''w2'' True))) = [''w1'', ''w3'']
   \<and> fst (deleteWarehouse demoExample ''zz'' True) = demoExample
   \<and> snd (deleteWarehouse demoExample ''zz'' True) = Resolved None
   \<and> map v_id (vessels (fst (deleteVessel demoExample ''v1'' True))) = [''v2'', ''v3'']
   \<and> fst (deleteVessel demoExample ''zz'' True) = demoExample"
proof -
  note w = delete_demo[OF demoExample_mode, where i = "''w2''" and j = "''v1''" and ok = True]
  note z = delete_demo[OF demoExample_mode, where i = "''zz''" and j = "''zz''" and ok = True]
  have 1: "map w_id (warehouses (fst (deleteWarehouse demoExample ''w2'' True))) = [''w1'', ''w3'']"
    using w by (simp add: demoExample_warehouses SAMPLE_warehouses_def)
  have 2: "map v_id (vessels (fst (deleteVessel demoExample ''v1'' True))) = [''v2'', ''v3'']"
    using w by (simp add: demoExample_vessels SAMPLE_vessels_def)
  have "''zz'' \<notin> w_id ` set (warehouses demoExample)"
    by (simp add: demoExample_warehouses SAMPLE_warehouses_def)
  then have 3: "fst (deleteWarehouse demoExample ''zz'' True) = demoExample" using z by blast
  have "''zz'' \<notin> v_id ` set (vessels demoExample)"
    by (simp add: demoExample_vessels SAMPLE_vessels_def)
  then have 4: "fst (deleteVessel demoExample ''zz'' True) = demoExample" using z by blast
  have 5: "snd (deleteWarehouse demoExample ''zz'' True) = Resolved None" using z by blast
  show ?thesis using demoExample_mode 1 2 3 4 5 by simp
qed

text \<open>
  Claim C10. In demo mode, create puts the new record at the head of the list, whatever its
  name: a facility gets the generated id and the current time as \<open>lastUpdate\<close>, a vessel gets
  the generated id and no timestamp; the records already present follow unchanged, and the
  other collection is untouched.
\<close>

theorem create_demo:
  assumes "mode s = demo"
  shows "warehouses (fst (createWarehouse s w uuid now reply)) =
      \<lparr>w_name = w_name w, w_location = w_location w, w_capacityTons = w_capacityTons w,
       w_usedTons = w_usedTons w, w_status = w_status w, w_lastUpdate = now, w_id = uuid\<rparr>
      # warehouses s
    \<and> vessels (fst (createWarehouse s w uuid now reply)) = vessels s
    \<and> vessels (fst (createVessel s v uuid reply)) =
      \<lparr>v_name = v_name v, v_cargo = v_cargo v, v_tonnage = v_tonnage v, v_status = v_status v,
       v_etaPort = v_etaPort v, v_eta = v_eta v, v_lastPosition = v_lastPosition v, v_id = uuid\<rparr>
      # vessels s
    \<and> warehouses (fst (createVessel s v uuid reply)) = warehouses s"
  using assms by (simp add: createWarehouse_def createVessel_def)

theorem create_demo_witness:
  "mode demoExample = demo
   \<and> map w_id (warehouses (fst (createWarehouse demoExample exampleDraft ''u9'' 5 None)))
       = [''u9'', ''w1'', ''w2'', ''w3'']
   \<and> map w_lastUpdate (warehouses (fst (createWarehouse demoExample exampleDraft ''u9'' 5 None)))
       = [5, 0, 0, 0]
   \<and> map v_id (vessels (fst (createVessel demoExample exampleVesselDraft ''u9'' None)))
       = [''u9'', ''v1'', ''v2'', ''v3'']"
  using create_demo[OF demoExample_mode, where w = exampleDraft and v = exampleVesselDraft
      and uuid = "''u9''" and now = 5 and reply = None]
  by (simp add: demoExample_mode demoExample_warehouses demoExample_vessels
      SAMPLE_warehouses_def SAMPLE_vessels_def)

section \<open>Persistence in demo mode\<close>

lemma step_mutation_demo:
  assumes "mode s = demo" and "isMutation e"
  shows "mode (step e s) = demo
    \<and> ls_data (step e s) = Item (Some (warehouses (step e s))) (Some (vessels (step e s)))"
  using assms
  by (cases e) (simp_all add: step_def rerender_def persistEffect_def crud_defs Let_def)

lemma loadDemo_Item: "loadDemo (Item (Some a) (Some b)) t0 = (a, b)"
  by (simp add: loadDemo_def)

lemma bootEffect_collections:
  "warehouses (bootEffect t0 s) = fst (loadDemo (ls_data s) t0)
   \<and> vessels (bootEffect t0 s) = snd (loadDemo (ls_data s) t0)"
  by (simp add: bootEffect_def split_beta Let_def)

lemma initState_ls_data: "ls_data (initState lsd lsc glob) = lsd"
  by (simp add: initState_def Let_def)

lemma mount_collections:
  "warehouses (mount t0 s) = fst (loadDemo (ls_data s) t0)
   \<and> vessels (mount t0 s) = snd (loadDemo (ls_data s) t0)"
  by (simp add: mount_def rerender_warehouses rerender_vessels bootEffect_collections)

lemma step_mutation_inSync:
  assumes "mode s = demo" and "isMutation e"
  shows "inSync t0 lsc glob (step e s)"
  using step_mutation_demo[OF assms]
  by (simp add: inSync_def mount_collections initState_ls_data loadDemo_Item)

text \<open>
  Claim C6. Starting in demo mode, after each mutation of any sequence of creates, updates
  and deletes the mode is still demo, the \<open>LS_KEY\<close> slot holds exactly the two collections
  of the view, and loading that slot (also by mounting the application afresh on it)
  reproduces them.
\<close>

theorem local_snapshot_roundtrip:
  assumes "mode s = demo" and "\<forall>e \<in> set es. isMutation e"
  shows "\<forall>s' \<in> set (trace es s). inSync t0 lsc glob s'"
  using assms
proof (induction es arbitrary: s)
  case Nil
  then show ?case by simp
next
  case (Cons e es)
  have m: "isMutation e" using Cons.prems(2) by simp
  have d: "mode (step e s) = demo" using step_mutation_demo[OF Cons.prems(1) m] by simp
  have "\<forall>s' \<in> set (trace es (step e s)). inSync t0 lsc glob s'"
    using Cons.IH[OF d] Cons.prems(2) by simp
  then show ?case using step_mutation_inSync[OF Cons.prems(1) m] by simp
qed

theorem local_snapshot_roundtrip_witness:
  "mode demoExample = demo
   \<and> isMutation (CreateWarehouse exampleDraft ''u9'' 5 None)
   \<and> isMutation (DeleteWarehouse ''w1'' True)
   \<and> isMutation (DeleteVessel ''zz'' True)
   \<and> inSync 0 CfgNone None
        (run [CreateWarehouse exampleDraft ''u9'' 5 None, DeleteWarehouse ''w1'' True,
              DeleteVessel ''zz'' True] demoExample)"
  using local_snapshot_roundtrip[OF demoExample_mode,
      where es = "[CreateWarehouse exampleDraft ''u9'' 5 None, DeleteWarehouse ''w1'' True,
              DeleteVessel ''zz'' True]" and ?t0.0 = 0 and lsc = CfgNone and glob = None]
  by (simp add: demoExample_mode)

section \<open>The gateway in cloud mode\<close>

lemma cloud_mutation_step:
  assumes "mode s = cloud" and "isMutation e"
  shows "step e s = s\<lparr>issued := issued (step e s)\<rparr>
    \<and> take (length (issued s)) (issued (step e s)) = issued s
    \<and> length (issued (step e s)) = length (issued s) + (if db s then 1 else 0)"
  using assms
  by (cases e) (simp_all add: step_def rerender_def persistEffect_def crud_defs Let_def)

lemma cloud_view_frame:
  assumes "mode s = cloud" and "\<not> isSnapshot e"
  shows "warehouses (handle e s) = warehouses s \<and> vessels (handle e s) = vessels s"
  using assms
  by (cases e)
     (simp_all add: crud_defs authCallback_def settingsSave_def onOpenChange_close_def
        saveFirebaseConfig_def clearFirebaseConfig_def doSignIn_def doSignOut_def
        split: option.splits)

text \<open>
  Claim C7. In cloud mode a create, update or delete changes nothing but the list of calls
  issued to Firestore, which grows by one call when a database handle is set (and by none
  otherwise), whether the call succeeds or fails; and every event other than a snapshot
  delivery leaves both collections of the view as they were.
\<close>

theorem cloud_no_optimistic_update:
  assumes "mode s = cloud"
  shows "(isMutation e \<longrightarrow>
           step e s = s\<lparr>issued := issued (step e s)\<rparr>
           \<and> take (length (issued s)) (issued (step e s)) = issued s
           \<and> length (issued (step e s)) = length (issued s) + (if db s then 1 else 0))
    \<and> (\<not> isSnapshot e \<longrightarrow>
           warehouses (step e s) = warehouses s \<and> vessels (step e s) = vessels s)"
  using cloud_mutation_step[OF assms] cloud_view_frame[OF assms]
  by (simp add: step_def rerender_warehouses rerender_vessels)

theorem cloud_no_optimistic_update_witness:
  "mode cloudExample = cloud
   \<and> isMutation (DeleteWarehouse ''w1'' False)
   \<and> \<not> isSnapshot (DeleteWarehouse ''w1'' False)
   \<and> warehouses (step (DeleteWarehouse ''w1'' False) cloudExample) = warehouses cloudExample
   \<and> vessels (step (DeleteWarehouse ''w1'' False) cloudExample) = vessels cloudExample
   \<and> length (issued (step (DeleteWarehouse ''w1'' False) cloudExample))
       = length (issued cloudExample) + 1"
  using cloud_no_optimistic_update[OF cloudExample_mode, where e = "DeleteWarehouse ''w1'' False"]
  by (simp add: cloudExample_mode cloudExample_db)

text \<open>
  Claim C2, as stated: a create in cloud mode reports the id the server assigned to its
  caller. With a server that assigns \<open>doc42\<close> and \<open>doc43\<close>, neither create reports it.
\<close>

theorem create_cloud_returns_id_counterexample:
  "\<not> (snd (createWarehouse cloudExample exampleDraft ''u9'' 5 (Some ''doc42''))
         = Resolved (Some ''doc42'')
      \<and> snd (createVessel cloudExample exampleVesselDraft ''u9'' (Some ''doc43''))
         = Resolved (Some ''doc43''))"
  by (simp add: createWarehouse_def createVessel_def cloudExample_mode cloudExample_db)

text \<open>
  Claim C2, amended: a create in cloud mode issues one \<open>addDoc\<close> on the namespace's
  collection when a database handle is set, and completes without a value: the id the
  server assigned is not reported to the caller.
\<close>

theorem create_cloud_discards_id:
  assumes "mode s = cloud"
  shows "snd (createWarehouse s w uuid now (Some i)) = Resolved None
    \<and> snd (createVessel s v uuid (Some i)) = Resolved None
    \<and> issued (fst (createWarehouse s w uuid now (Some i))) =
        (if db s
         then issued s @ [AddWarehouseDoc (W (colRefs (orgKey s))) (w\<lparr>w_lastUpdate := now\<rparr>)]
         else issued s)
    \<and> issued (fst (createVessel s v uuid (Some i))) =
        (if db s then issued s @ [AddVesselDoc (V (colRefs (orgKey s))) v] else issued s)"
  using assms by (simp add: createWarehouse_def createVessel_def)

theorem create_cloud_discards_id_witness:
  "mode cloudExample = cloud
   \<and> snd (createWarehouse cloudExample exampleDraft ''u9'' 5 (Some ''doc42'')) = Resolved None
   \<and> issued (fst (createWarehouse cloudExample exampleDraft ''u9'' 5 (Some ''doc42''))) =
       issued cloudExample
         @ [AddWarehouseDoc ''orgs/acme/warehouses'' (exampleDraft\<lparr>w_lastUpdate := 5\<rparr>)]"
  using create_cloud_discards_id[OF cloudExample_mode, where w = exampleDraft and uuid = "''u9''"
      and now = 5 and i = "''doc42''"]
  by (simp add: cloudExample_mode cloudExample_db cloudExample_orgKey colRefs_def)

section \<open>The mode controller\<close>

lemma handle_noConfig:
  assumes "mode s = demo" and "\<not> authListener s" and "loadFirebaseConfig s = None"
  shows "mode (handle e s) = demo \<and> \<not> authListener (handle e s)"
  using assms
  by (cases e)
     (simp_all add: crud_defs authCallback_def snapshotW_def snapshotV_def settingsSave_def
        onOpenChange_close_def saveFirebaseConfig_def clearFirebaseConfig_def doSignIn_def
        doSignOut_def ensureFirebase_def split: option.splits)

lemma step_noConfig:
  assumes "mode s = demo" and "\<not> authListener s" and "loadFirebaseConfig s = None"
  shows "mode (step e s) = demo \<and> \<not> authListener (step e s)"
  using handle_noConfig[OF assms] by (simp add: step_def rerender_mode rerender_authListener)

lemma trace_noConfig:
  assumes "mode s = demo" and "\<not> authListener s" and "noConfigRun es s"
  shows "\<forall>s' \<in> set (trace es s). mode s' = demo"
  using assms
proof (induction es arbitrary: s)
  case Nil
  then show ?case by simp
next
  case (Cons e es)
  have c: "loadFirebaseConfig s = None" and r: "noConfigRun es (step e s)"
    using Cons.prems(3) by simp_all
  have i: "mode (step e s) = demo \<and> \<not> authListener (step e s)"
    using step_noConfig[OF Cons.prems(1) Cons.prems(2) c] .
  then have "\<forall>s' \<in> set (trace es (step e s)). mode s' = demo"
    using Cons.IH r by blast
  then show ?case using i by simp
qed

lemma initState_mode: "mode (initState lsd lsc glob) = demo"
  by (simp add: initState_def Let_def)

lemma mount_mode: "mode (mount t0 (initState lsd lsc glob)) = demo"
  by (simp add: mount_def rerender_mode bootEffect_def initState_def Let_def split_beta)

lemma mount_noListener:
  assumes "loadFirebaseConfig (initState lsd lsc glob) = None"
  shows "\<not> authListener (mount t0 (initState lsd lsc glob))"
proof -
  have "\<not> ensureFirebase (initState lsd lsc glob)"
    using assms by (simp add: ensureFirebase_def)
  then show ?thesis
    by (simp add: mount_def rerender_authListener bootEffect_def split_beta Let_def)
       (simp add: initState_def Let_def)
qed

text \<open>
  What holds of the mode controller: the initial mode is demo, also after mounting and
  whatever configuration exists; and when no configuration is found at startup and
  before each event of a sequence, the mode is demo after every event of that sequence,
  whatever users the sign-in popup and the auth provider report.
\<close>

theorem regime_local_without_config:
  "mode (initState lsd lsc glob) = demo
   \<and> mode (mount t0 (initState lsd lsc glob)) = demo
   \<and> (loadFirebaseConfig (initState lsd lsc glob) = None \<longrightarrow>
        noConfigRun es (mount t0 (initState lsd lsc glob)) \<longrightarrow>
        (\<forall>s' \<in> set (trace es (mount t0 (initState lsd lsc glob))). mode s' = demo))"
  using initState_mode mount_mode mount_noListener trace_noConfig by blast

lemma demoExample_noConfig: "loadFirebaseConfig (initState NoItem CfgNone None) = None"
  by (simp add: initState_def loadFirebaseConfig_def persisted_def Let_def)

theorem regime_local_without_config_witness:
  "loadFirebaseConfig (initState NoItem CfgNone None) = None
   \<and> noConfigRun [SignIn (Some ''u1''), AuthStateChanged (Some ''u1''), SettingsClose,
        SettingsSave ''k'' ''d'' ''p'' ''acme''] (mount 0 (initState NoItem CfgNone None))
   \<and> mode (run [SignIn (Some ''u1''), AuthStateChanged (Some ''u1''), SettingsClose,
        SettingsSave ''k'' ''d'' ''p'' ''acme''] (mount 0 (initState NoItem CfgNone None))) = demo"
proof -
  have n: "noConfigRun [SignIn (Some ''u1''), AuthStateChanged (Some ''u1''), SettingsClose,
        SettingsSave ''k'' ''d'' ''p'' ''acme''] (mount 0 (initState NoItem CfgNone None))"
    by (simp add: app_defs Let_def)
  show ?thesis
    using regime_local_without_config[where lsd = NoItem and lsc = CfgNone and glob = None
        and ?t0.0 = 0 and es = "[SignIn (Some ''u1''), AuthStateChanged (Some ''u1''),
          SettingsClose, SettingsSave ''k'' ''d'' ''p'' ''acme'']"]
      demoExample_noConfig n
    by simp
qed

text \<open>
  Claim C4. The initial mode is demo, and no sequence of events occurring while no
  configuration exists makes the mode cloud. The second part fails after a startup that
  found a configuration: the auth listener registered then is not released when the
  configuration is cleared, and its callback does not look for a configuration as
  \<open>doSignIn\<close> does. Below, the configuration is cleared, the mode is demo, the auth
  callback then arrives while no configuration exists, and the mode becomes cloud, with a
  database handle and without a subscription.
\<close>

theorem auth_callback_after_config_cleared:
  "mode (initState NoItem (CfgItem exampleCfg) None) = demo
   \<and> loadFirebaseConfig (run [SettingsReset] configuredExample) = None
   \<and> mode (run [SettingsReset] configuredExample) = demo
   \<and> noConfigRun [AuthStateChanged (Some ''u1'')] (run [SettingsReset] configuredExample)
   \<and> mode (run [AuthStateChanged (Some ''u1'')] (run [SettingsReset] configuredExample)) = cloud
   \<and> db (run [AuthStateChanged (Some ''u1'')] (run [SettingsReset] configuredExample))
   \<and> subscription (run [AuthStateChanged (Some ''u1'')] (run [SettingsReset] configuredExample))
       = None"
  by (simp add: configuredExample_def exampleCfg_def app_defs Let_def)

lemma signOut_persists_view:
  assumes "mode s = cloud" and "auth s"
  shows "mode (step SignOut s) = demo
    \<and> warehouses (step SignOut s) = warehouses s \<and> vessels (step SignOut s) = vessels s
    \<and> ls_data (step SignOut s) = Item (Some (warehouses s)) (Some (vessels s))"
  using assms
  by (simp add: step_def doSignOut_def rerender_def persistEffect_def syncEffect_def Let_def)

text \<open>
  Claim C1. From the demo state whose slot holds the sample data, a sign-in, the two
  snapshots of the team's collections and a sign-out, with no call issued to Firestore,
  end in demo mode with the view and the \<open>LS_KEY\<close> slot both holding the team's snapshot:
  the local record set of before the switch is gone.
\<close>

theorem sign_out_overwrites_local_store:
  "mode cloudExample = cloud
   \<and> ls_data cloudExample = Item (Some (SAMPLE_warehouses 0)) (Some (SAMPLE_vessels 0))
   \<and> mode (run [SnapshotW [remoteWarehouse], SnapshotV [], SignOut] cloudExample) = demo
   \<and> issued (run [SnapshotW [remoteWarehouse], SnapshotV [], SignOut] cloudExample) = []
   \<and> warehouses (run [SnapshotW [remoteWarehouse], SnapshotV [], SignOut] cloudExample)
       = [remoteWarehouse]
   \<and> vessels (run [SnapshotW [remoteWarehouse], SnapshotV [], SignOut] cloudExample) = []
   \<and> ls_data (run [SnapshotW [remoteWarehouse], SnapshotV [], SignOut] cloudExample)
       = Item (Some [remoteWarehouse]) (Some [])"
  using cloudExample_mode cloudExample_local
  by (simp add: step_def rerender_def persistEffect_def syncEffect_def snapshotW_def
      snapshotV_def doSignOut_def Let_def)

end
